theory Spec2Isabelle
  imports Complex_Main "HOL-Library.Sublist" "HOL-Library.Char_ord" "HOL-Library.List_Lexorder"
begin

section \<open>Python strings\<close>

text \<open>
  A Python \<open>str\<close> is a sequence of code points. A \<^typ>\<open>char\<close> stands for a code point in
  U+0000..U+00FF, so the string functions below are those of CPython on every string of
  that range: \<open>str.lower\<close> moves A..Z, U+00C0..U+00D6 and U+00D8..U+00DE up by 32,
  and \<open>str.isspace\<close> holds of U+0009..U+000D, U+001C..U+0020, U+0085 and U+00A0.
\<close>

definition lower_char :: "char \<Rightarrow> char" where
  "lower_char c =
     (let n = (of_char c :: nat)
      in if (65 \<le> n \<and> n \<le> 90) \<or> (192 \<le> n \<and> n \<le> 222 \<and> n \<noteq> 215)
         then char_of (n + 32) else c)"

definition lower :: "string \<Rightarrow> string" where
  "lower s = map lower_char s"

definition isspace :: "char \<Rightarrow> bool" where
  "isspace c =
     (let n = (of_char c :: nat)
      in (9 \<le> n \<and> n \<le> 13) \<or> (28 \<le> n \<and> n \<le> 32) \<or> n = 133 \<or> n = 160)"

definition lstrip :: "string \<Rightarrow> string" where
  "lstrip s = dropWhile isspace s"

definition rstrip :: "string \<Rightarrow> string" where
  "rstrip s = rev (dropWhile isspace (rev s))"

definition strip :: "string \<Rightarrow> string" where
  "strip s = rstrip (lstrip s)"

text \<open>\<open>sub in s\<close>: a left-to-right search for an occurrence of \<open>sub\<close>.\<close>

fun py_in :: "string \<Rightarrow> string \<Rightarrow> bool" where
  "py_in sub [] = (sub = [])"
| "py_in sub (c # cs) = (prefix sub (c # cs) \<or> py_in sub cs)"

text \<open>
  \<open>s.replace(old, new)\<close> for a non-empty \<open>old\<close>: the occurrences are found from the left
  and do not overlap; the search goes on behind each replaced occurrence.
\<close>

function replace_from :: "string \<Rightarrow> string \<Rightarrow> string \<Rightarrow> string" where
  "replace_from old new [] = []"
| "replace_from old new (c # cs) =
     (if old \<noteq> [] \<and> prefix old (c # cs)
      then new @ replace_from old new (drop (length old) (c # cs))
      else c # replace_from old new cs)"
  by pat_completeness auto
termination
  by (relation "measure (\<lambda>(old, new, s). length s)") (auto simp: neq_Nil_conv)

definition replace :: "string \<Rightarrow> string \<Rightarrow> string \<Rightarrow> string" where
  \<comment> \<open>an empty \<open>old\<close> matches before every character and at the end\<close>
  "replace old new s =
     (if old = [] then new @ concat (map (\<lambda>c. c # new) s) else replace_from old new s)"

text \<open>\<open>sep.join(xs)\<close>\<close>

fun join :: "string \<Rightarrow> string list \<Rightarrow> string" where
  "join sep [] = []"
| "join sep [x] = x"
| "join sep (x # y # ys) = x @ sep @ join sep (y # ys)"

text \<open>Decimal numerals, as \<open>str\<close> prints an \<open>int\<close> and \<open>strftime\<close> pads a field.\<close>

definition digit :: "nat \<Rightarrow> char" where
  "digit d = char_of (48 + d)"

function str_nat :: "nat \<Rightarrow> string" where
  "str_nat n = (if n < 10 then [digit n] else str_nat (n div 10) @ [digit (n mod 10)])"
  by pat_completeness auto
termination
  by (relation "measure id") auto

declare str_nat.simps [simp del]

definition str_int :: "int \<Rightarrow> string" where
  "str_int i = (if i < 0 then CHR ''-'' # str_nat (nat (- i)) else str_nat (nat i))"

definition zero_pad :: "nat \<Rightarrow> nat \<Rightarrow> string" where
  "zero_pad width n = replicate (width - length (str_nat n)) CHR ''0'' @ str_nat n"

section \<open>Python values and exceptions\<close>

text \<open>
  The values a decoded JSON payload is made of; they are also the arguments a caller can
  hand to \<open>process_command\<close>. A \<open>float\<close> is the rational number it holds (the two
  infinities and NaN are left out). A \<open>dict\<close> has string keys, each at most once.
\<close>

datatype pyval =
    PNone
  | PBool bool
  | PInt int
  | PFloat rat
  | PStr string
  | PList "pyval list"
  | PDict "(string \<times> pyval) list"

text \<open>\<open>bool(v)\<close>, the test behind \<open>not v\<close> and \<open>if v\<close>.\<close>

fun truthy :: "pyval \<Rightarrow> bool" where
  "truthy PNone = False"
| "truthy (PBool b) = b"
| "truthy (PInt i) = (i \<noteq> 0)"
| "truthy (PFloat r) = (r \<noteq> 0)"
| "truthy (PStr s) = (s \<noteq> [])"
| "truthy (PList xs) = (xs \<noteq> [])"
| "truthy (PDict kvs) = (kvs \<noteq> [])"

fun isinstance_str :: "pyval \<Rightarrow> bool" where
  "isinstance_str (PStr s) = True"
| "isinstance_str _ = False"

fun str_value :: "pyval \<Rightarrow> string" where
  "str_value (PStr s) = s"
| "str_value _ = []"

fun type_name :: "pyval \<Rightarrow> string" where
  "type_name PNone = ''NoneType''"
| "type_name (PBool b) = ''bool''"
| "type_name (PInt i) = ''int''"
| "type_name (PFloat r) = ''float''"
| "type_name (PStr s) = ''str''"
| "type_name (PList xs) = ''list''"
| "type_name (PDict kvs) = ''dict''"

text \<open>
  The exceptions that reach a handler of the program. Each constructor is a subclass of
  \<open>Exception\<close> and carries \<open>str(e)\<close>; a \<open>DisambiguationError\<close> also carries its
  \<open>options\<close>. \<open>KeyboardInterrupt\<close> and \<open>SystemExit\<close>, which no handler of the program
  names, are outside the model.
\<close>

datatype exn =
    RequestException string
  | DisambiguationError string "string list"
  | PageError string
  | AttributeError string
  | TypeError string
  | KeyError string
  | IndexError string
  | OtherException string

fun str_exn :: "exn \<Rightarrow> string" where
  "str_exn (RequestException m) = m"
| "str_exn (DisambiguationError m opts) = m"
| "str_exn (PageError m) = m"
| "str_exn (AttributeError m) = m"
| "str_exn (TypeError m) = m"
| "str_exn (KeyError m) = m"
| "str_exn (IndexError m) = m"
| "str_exn (OtherException m) = m"

definition quoted :: "string \<Rightarrow> string" where
  "quoted s = [CHR 0x27] @ s @ [CHR 0x27]"

text \<open>Sequencing of steps that may raise, and \<open>try: ... except Exception as e: ...\<close>.\<close>

definition and_then :: "exn + 'a \<Rightarrow> ('a \<Rightarrow> exn + 'b) \<Rightarrow> exn + 'b" where
  "and_then m f = (case m of Inl e \<Rightarrow> Inl e | Inr x \<Rightarrow> f x)"

definition try_except :: "exn + 'a \<Rightarrow> (exn \<Rightarrow> exn + 'a) \<Rightarrow> exn + 'a" where
  "try_except body handler = (case body of Inl e \<Rightarrow> handler e | Inr x \<Rightarrow> Inr x)"

text \<open>\<open>d.get(key, default)\<close>: only a \<open>dict\<close> has the method.\<close>

definition py_get :: "pyval \<Rightarrow> string \<Rightarrow> pyval \<Rightarrow> exn + pyval" where
  "py_get d key dflt =
     (case d of
        PDict kvs \<Rightarrow> Inr (case map_of kvs key of Some v \<Rightarrow> v | None \<Rightarrow> dflt)
      | _ \<Rightarrow> Inl (AttributeError
                 (quoted (type_name d) @ '' object has no attribute '' @ quoted ''get'')))"

text \<open>\<open>v[0]\<close>\<close>

definition py_first :: "pyval \<Rightarrow> exn + pyval" where
  "py_first v =
     (case v of
        PList xs \<Rightarrow> (case xs of [] \<Rightarrow> Inl (IndexError ''list index out of range'')
                     | x # _ \<Rightarrow> Inr x)
      | PStr s \<Rightarrow> (case s of [] \<Rightarrow> Inl (IndexError ''string index out of range'')
                   | c # _ \<Rightarrow> Inr (PStr [c]))
      | PDict kvs \<Rightarrow> Inl (KeyError ''0'')
      | _ \<Rightarrow> Inl (TypeError
                 (quoted (type_name v) @ '' object is not subscriptable'')))"

text \<open>\<open>v[key]\<close> for a string key\<close>

definition py_item :: "pyval \<Rightarrow> string \<Rightarrow> exn + pyval" where
  "py_item v key =
     (case v of
        PDict kvs \<Rightarrow> (case map_of kvs key of Some x \<Rightarrow> Inr x
                      | None \<Rightarrow> Inl (KeyError (quoted key)))
      | PList xs \<Rightarrow> Inl (TypeError ''list indices must be integers or slices, not str'')
      | PStr s \<Rightarrow> Inl (TypeError (''string indices must be integers, not '' @ quoted ''str''))
      | _ \<Rightarrow> Inl (TypeError
                 (quoted (type_name v) @ '' object is not subscriptable'')))"

text \<open>\<open>v != n\<close> for an integer \<open>n\<close>: numbers compare by value, \<open>True\<close> is 1.\<close>

definition py_ne_int :: "pyval \<Rightarrow> int \<Rightarrow> bool" where
  "py_ne_int v n =
     (case v of
        PInt i \<Rightarrow> i \<noteq> n
      | PFloat r \<Rightarrow> r \<noteq> of_int n
      | PBool b \<Rightarrow> (if b then 1 else 0) \<noteq> n
      | _ \<Rightarrow> True)"

section \<open>The clock\<close>

datatype month =
    January | February | March | April | May | June
  | July | August | September | October | November | December

fun month_name :: "month \<Rightarrow> string" where
  "month_name January = ''January''"
| "month_name February = ''February''"
| "month_name March = ''March''"
| "month_name April = ''April''"
| "month_name May = ''May''"
| "month_name June = ''June''"
| "month_name July = ''July''"
| "month_name August = ''August''"
| "month_name September = ''September''"
| "month_name October = ''October''"
| "month_name November = ''November''"
| "month_name December = ''December''"

fun month_number :: "month \<Rightarrow> nat" where
  "month_number January = 1"
| "month_number February = 2"
| "month_number March = 3"
| "month_number April = 4"
| "month_number May = 5"
| "month_number June = 6"
| "month_number July = 7"
| "month_number August = 8"
| "month_number September = 9"
| "month_number October = 10"
| "month_number November = 11"
| "month_number December = 12"

record datetime =
  year :: nat
  month :: month
  day :: nat
  hour :: nat
  minute :: nat
  second :: nat

text \<open>The three formats the program asks \<open>strftime\<close> for.\<close>

definition strftime_HM :: "datetime \<Rightarrow> string" where
  \<comment> \<open>\<open>'%H:%M'\<close>\<close>
  "strftime_HM t = zero_pad 2 (hour t) @ '':'' @ zero_pad 2 (minute t)"

definition strftime_BdY :: "datetime \<Rightarrow> string" where
  \<comment> \<open>\<open>'%B %d, %Y'\<close>\<close>
  "strftime_BdY t =
     month_name (month t) @ '' '' @ zero_pad 2 (day t) @ '', '' @ zero_pad 4 (year t)"

definition strftime_stamp :: "datetime \<Rightarrow> string" where
  \<comment> \<open>\<open>"%Y%m%d_%H%M%S"\<close>\<close>
  "strftime_stamp t =
     zero_pad 4 (year t) @ zero_pad 2 (month_number (month t)) @ zero_pad 2 (day t) @ ''_''
     @ zero_pad 2 (hour t) @ zero_pad 2 (minute t) @ zero_pad 2 (second t)"

section \<open>The provider adapters\<close>

text \<open>
  What the program cannot decide is a field of the environment: the configuration read at
  start, the clock, and the outcome of each library call, which is the value the call
  returns or the exception it raises.
  \<^item> \<open>requests_get_json url\<close>: \<open>requests.get(url, timeout=10)\<close>, \<open>raise_for_status()\<close>
    and \<open>response.json()\<close>, one after the other;
  \<^item> \<open>wikipedia_summary query\<close>: \<open>wikipedia.set_lang("en")\<close> and
    \<open>wikipedia.summary(query, sentences=2, auto_suggest=False)\<close>;
  \<^item> \<open>sp\<close>: the Spotify client, \<open>None\<close> when it was not initialised, with its
    \<open>search(q, limit=1, type='track')\<close> and \<open>start_playback(uris)\<close>;
  \<^item> \<open>pwt_search query\<close>: \<open>pywhatkit.search(query)\<close>;
  \<^item> \<open>str_other v\<close>: \<open>str(v)\<close> of a float, a list or a dict, inside an f-string.
\<close>

record spotify_client =
  sp_search :: "string \<Rightarrow> exn + pyval"
  sp_start_playback :: "pyval list \<Rightarrow> exn + unit"

record env =
  WEATHER_API_KEY :: "string option"
  now :: datetime
  requests_get_json :: "string \<Rightarrow> exn + pyval"
  wikipedia_summary :: "string \<Rightarrow> exn + string"
  sp :: "spotify_client option"
  pwt_search :: "string \<Rightarrow> exn + unit"
  str_other :: "pyval \<Rightarrow> string"

text \<open>A value of \<open>os.getenv\<close>: its truth value, and its text inside an f-string.\<close>

fun getenv_set :: "string option \<Rightarrow> bool" where
  "getenv_set None = False"
| "getenv_set (Some v) = (v \<noteq> [])"

fun getenv_str :: "string option \<Rightarrow> string" where
  "getenv_str None = ''None''"
| "getenv_str (Some v) = v"

definition py_str :: "env \<Rightarrow> pyval \<Rightarrow> string" where
  "py_str env v =
     (case v of
        PStr s \<Rightarrow> s
      | PNone \<Rightarrow> ''None''
      | PBool b \<Rightarrow> (if b then ''True'' else ''False'')
      | PInt i \<Rightarrow> str_int i
      | _ \<Rightarrow> str_other env v)"

definition get_weather :: "env \<Rightarrow> string \<Rightarrow> exn + string" where
  "get_weather env city =
     (if \<not> getenv_set (WEATHER_API_KEY env) then Inr ''Weather API not configured''
      else
        let base_url = ''https://api.openweathermap.org/data/2.5/weather?'';
            complete_url = base_url @ ''appid='' @ getenv_str (WEATHER_API_KEY env)
                           @ ''&q='' @ city @ ''&units=metric''
        in try_except
             (and_then (requests_get_json env complete_url) (\<lambda>data.
              and_then (py_get data ''cod'' PNone) (\<lambda>cod.
              if py_ne_int cod 200 then
                and_then (py_get data ''message'' (PStr ''Unknown error'')) (\<lambda>message.
                Inr (''Weather error: '' @ py_str env message))
              else
                and_then (py_get data ''main'' (PDict [])) (\<lambda>main.
                and_then (py_get data ''weather'' (PList [PDict []])) (\<lambda>weathers.
                and_then (py_first weathers) (\<lambda>weather.
                and_then (py_get weather ''description'' (PStr ''N/A'')) (\<lambda>description.
                and_then (py_get main ''temp'' (PStr ''N/A'')) (\<lambda>temp.
                and_then (py_get main ''feels_like'' (PStr ''N/A'')) (\<lambda>feels_like.
                and_then (py_get main ''humidity'' (PStr ''N/A'')) (\<lambda>humidity.
                Inr (''Weather in '' @ city @ '': '' @ py_str env description @ ''. ''
                     @ ''Temperature: '' @ py_str env temp @ [CHR 0xB0] @ ''C, ''
                     @ ''feels like '' @ py_str env feels_like @ [CHR 0xB0] @ ''C. ''
                     @ ''Humidity: '' @ py_str env humidity @ ''%'')))))))))))
             (\<lambda>e. case e of
                     RequestException m \<Rightarrow> Inr (''Error fetching weather: '' @ str_exn e)
                   | _ \<Rightarrow> Inr (''Error processing weather data: '' @ str_exn e)))"

definition search_wikipedia :: "env \<Rightarrow> string \<Rightarrow> exn + string" where
  "search_wikipedia env query =
     try_except (wikipedia_summary env query)
       (\<lambda>e. case e of
               DisambiguationError m options \<Rightarrow>
                 Inr (''Multiple matches. Be more specific. Options: ''
                      @ join '', '' (take 3 options) @ ''...'')
             | PageError m \<Rightarrow> Inr ''No information found. Try different terms.''
             | _ \<Rightarrow> Inr (''Wikipedia error: '' @ str_exn e))"

definition play_spotify :: "env \<Rightarrow> string \<Rightarrow> exn + string" where
  "play_spotify env song_name =
     (case sp env of
        None \<Rightarrow> Inr ''Spotify not connected''
      | Some client \<Rightarrow>
          try_except
            (and_then (sp_search client song_name) (\<lambda>results.
             and_then (py_item results ''tracks'') (\<lambda>tracks.
             and_then (py_item tracks ''items'') (\<lambda>items.
             if truthy items then
               and_then (py_first items) (\<lambda>track.
               and_then (py_item track ''uri'') (\<lambda>uri.
               and_then (sp_start_playback client [uri]) (\<lambda>_.
               and_then (py_item track ''name'') (\<lambda>name.
               and_then (py_item track ''artists'') (\<lambda>artists.
               and_then (py_first artists) (\<lambda>artist.
               and_then (py_item artist ''name'') (\<lambda>artist_name.
               Inr (''Now playing: '' @ py_str env name @ '' by ''
                    @ py_str env artist_name))))))))
             else Inr ''Song not found.''))))
            (\<lambda>e. Inr (''Spotify error: '' @ str_exn e)))"

definition search_google :: "env \<Rightarrow> string \<Rightarrow> exn + string" where
  "search_google env query =
     try_except
       (and_then (pwt_search env query) (\<lambda>_. Inr (''Searching Google for: '' @ query)))
       (\<lambda>e. Inr (''Search error: '' @ str_exn e))"

section \<open>The command router\<close>

text \<open>
  \<open>process_command\<close> returns a string or raises. The model returns both outcomes as a
  value, together with the adapter calls the router made, in the order it made them.
\<close>

datatype call =
    Get_weather string
  | Search_wikipedia string
  | Play_spotify string
  | Search_google string

record outcome =
  invoked :: "call list"
  response :: "exn + string"

definition reply :: "string \<Rightarrow> outcome" where
  "reply s = \<lparr>invoked = [], response = Inr s\<rparr>"

definition delegate :: "call \<Rightarrow> exn + string \<Rightarrow> outcome" where
  "delegate c r = \<lparr>invoked = [c], response = r\<rparr>"

definition py_or :: "string \<Rightarrow> string \<Rightarrow> string" where
  \<comment> \<open>\<open>a or b\<close> on strings\<close>
  "py_or a b = (if a \<noteq> [] then a else b)"

text \<open>The rules, on the normalised command (lines 221 to 243).\<close>

definition dispatch :: "env \<Rightarrow> string \<Rightarrow> outcome" where
  "dispatch env command =
     (if command = [] then reply ''I didn't catch that. Please try again.''
      else if list_ex (\<lambda>word. py_in word command) [''hello'', ''hi'', ''hey'']
        then reply ''Hello! How can I help?''
      else if py_in ''time'' command
        then reply (''The time is '' @ strftime_HM (now env))
      else if py_in ''date'' command
        then reply (''Today is '' @ strftime_BdY (now env))
      else if py_in ''weather'' command
        then (let city = strip (replace ''in'' [] (replace ''weather'' [] command))
              in delegate (Get_weather (py_or city ''New York''))
                   (get_weather env (py_or city ''New York'')))
      else if py_in ''wikipedia'' command \<or> py_in ''wiki'' command
        then (let query = strip (replace ''wiki'' [] (replace ''wikipedia'' [] command))
              in if query \<noteq> [] then delegate (Search_wikipedia query) (search_wikipedia env query)
                 else reply ''Specify a search term'')
      else if py_in ''play'' command \<and> (py_in ''song'' command \<or> py_in ''music'' command)
        then (let song = strip (replace ''music'' []
                                 (replace ''song'' [] (replace ''play'' [] command)))
              in if song \<noteq> [] then delegate (Play_spotify song) (play_spotify env song)
                 else reply ''Specify a song'')
      else if py_in ''search'' command \<and> py_in ''google'' command
        then (let query = strip (replace ''google'' [] (replace ''search'' [] command))
              in if query \<noteq> [] then delegate (Search_google query) (search_google env query)
                 else reply ''Specify a search'')
      else delegate (Search_google command) (search_google env command))"

definition process_command :: "env \<Rightarrow> pyval \<Rightarrow> outcome" where
  "process_command env command =
     (if \<not> truthy command \<or> \<not> isinstance_str command
      then reply ''Please provide a valid command''
      else dispatch env (strip (lower (str_value command))))"

text \<open>An environment with every provider out of reach, to run the router on.\<close>

definition demo_env :: env where
  "demo_env =
     \<lparr>WEATHER_API_KEY = None,
      now = \<lparr>year = 2024, month = March, day = 5, hour = 9, minute = 7, second = 3\<rparr>,
      requests_get_json = (\<lambda>url. Inl (RequestException ''timed out'')),
      wikipedia_summary = (\<lambda>query.
        if query = ''mercury''
        then Inl (DisambiguationError ''mercury may refer to''
               [''Mercury (planet)'', ''Mercury (element)'', ''Mercury (mythology)'',
                ''Mercury Records''])
        else Inl (PageError ''no page'')),
      sp = None,
      pwt_search = (\<lambda>query. Inr ()),
      str_other = (\<lambda>v. ''?'')\<rparr>"

section \<open>The rule table of the specification\<close>

text \<open>
  The specification describes the router as an ordered table of rules, each a condition
  on the normalised command and a handler, of which the first that matches is taken. The
  table below is written from that description; the router above is written from the
  code. \<open>strip_tokens\<close> is the specification's "strip those tokens to derive an
  argument".
\<close>

type_synonym rule = "(string \<Rightarrow> bool) \<times> (env \<Rightarrow> string \<Rightarrow> outcome)"

definition strip_tokens :: "string list \<Rightarrow> string \<Rightarrow> string" where
  "strip_tokens tokens command = strip (foldl (\<lambda>s token. replace token [] s) command tokens)"

definition rule_table :: "rule list" where
  "rule_table =
     [(\<lambda>c. py_in ''hello'' c \<or> py_in ''hi'' c \<or> py_in ''hey'' c,
       \<lambda>env c. reply ''Hello! How can I help?''),
      (\<lambda>c. py_in ''time'' c,
       \<lambda>env c. reply (''The time is '' @ strftime_HM (now env))),
      (\<lambda>c. py_in ''date'' c,
       \<lambda>env c. reply (''Today is '' @ strftime_BdY (now env))),
      (\<lambda>c. py_in ''weather'' c,
       \<lambda>env c. let city = py_or (strip_tokens [''weather'', ''in''] c) ''New York''
               in delegate (Get_weather city) (get_weather env city)),
      (\<lambda>c. py_in ''wikipedia'' c \<or> py_in ''wiki'' c,
       \<lambda>env c. let query = strip_tokens [''wikipedia'', ''wiki''] c
               in if query = [] then reply ''Specify a search term''
                  else delegate (Search_wikipedia query) (search_wikipedia env query)),
      (\<lambda>c. py_in ''play'' c \<and> (py_in ''song'' c \<or> py_in ''music'' c),
       \<lambda>env c. let title = strip_tokens [''play'', ''song'', ''music''] c
               in if title = [] then reply ''Specify a song''
                  else delegate (Play_spotify title) (play_spotify env title)),
      (\<lambda>c. py_in ''search'' c \<and> py_in ''google'' c,
       \<lambda>env c. let query = strip_tokens [''search'', ''google''] c
               in if query = [] then reply ''Specify a search''
                  else delegate (Search_google query) (search_google env query)),
      (\<lambda>c. True,
       \<lambda>env c. delegate (Search_google c) (search_google env c))]"

fun first_match :: "rule list \<Rightarrow> env \<Rightarrow> string \<Rightarrow> outcome option" where
  "first_match [] env c = None"
| "first_match (r # rules) env c =
     (if fst r c then Some (snd r env c) else first_match rules env c)"

text \<open>
  An environment in which every provider fails: the weather service answers with a
  payload that is not an object, the encyclopedia and the search raise, and the Spotify
  session has expired.
\<close>

definition failing_env :: env where
  "failing_env =
     \<lparr>WEATHER_API_KEY = Some ''key'',
      now = \<lparr>year = 2024, month = March, day = 5, hour = 9, minute = 7, second = 3\<rparr>,
      requests_get_json = (\<lambda>url. Inr (PList [])),
      wikipedia_summary = (\<lambda>query. Inl (OtherException ''connection reset'')),
      sp = Some \<lparr>sp_search = (\<lambda>q. Inl (OtherException ''token expired'')),
                 sp_start_playback = (\<lambda>uris. Inr ())\<rparr>,
      pwt_search = (\<lambda>query. Inl (OtherException ''no browser'')),
      str_other = (\<lambda>v. ''?'')\<rparr>"

section \<open>The interaction recorder\<close>

text \<open>
  The bucket named by \<open>S3_BUCKET_NAME\<close> is a list of objects in the order of their keys,
  which is the order \<open>list_objects_v2\<close> reports them in; a key occurs once. An object
  has a body, a content type and the \<open>LastModified\<close> stamp the service gave it, in whole
  seconds of the service's clock. A body is the text \<open>json.dumps\<close> writes for a value,
  kept as that value (\<open>json.loads\<close> gives it back), or bytes that are no JSON text.

  The client is \<open>None\<close> when it was not initialised. Which calls fail is a field of the
  client: a call raises the exception named there for it, and a \<open>put_object\<close> that
  raises leaves the bucket as it was. The listing is taken to be complete.
\<close>

datatype body = Json_text pyval | Other_bytes string

record s3_object =
  obj_body :: body
  content_type :: string
  last_modified :: nat

record s3_client =
  put_object_error :: "string \<Rightarrow> exn option"
  list_objects_error :: "exn option"
  get_object_error :: "string \<Rightarrow> exn option"

record storage =
  s3 :: "s3_client option"
  S3_BUCKET_NAME :: "string option"
  local_time :: datetime
  s3_time :: nat
  bucket :: "(string \<times> s3_object) list"

definition json_dumps :: "pyval \<Rightarrow> exn + body" where
  "json_dumps v = Inr (Json_text v)"

fun json_loads :: "body \<Rightarrow> exn + pyval" where
  "json_loads (Json_text v) = Inr v"
| "json_loads (Other_bytes b) = Inl (OtherException ''Expecting value'')"

definition store_put :: "string \<Rightarrow> s3_object \<Rightarrow> (string \<times> s3_object) list
    \<Rightarrow> (string \<times> s3_object) list" where
  "store_put key obj objs = insort_key fst (key, obj) (filter (\<lambda>p. fst p \<noteq> key) objs)"

definition put_object :: "s3_client \<Rightarrow> storage \<Rightarrow> string \<Rightarrow> body \<Rightarrow> string
    \<Rightarrow> (exn + unit) \<times> storage" where
  "put_object client st key b ctype =
     (case put_object_error client key of
        Some e \<Rightarrow> (Inl e, st)
      | None \<Rightarrow>
          (Inr (),
           st\<lparr>bucket := store_put key
                 \<lparr>obj_body = b, content_type = ctype, last_modified = s3_time st\<rparr>
                 (bucket st)\<rparr>))"

text \<open>
  \<open>list_objects_v2(Bucket, Prefix)\<close>: the \<open>Key\<close> and \<open>LastModified\<close> of each object
  under the prefix. The answer has no \<open>Contents\<close> entry when there is none, so
  \<open>'Contents' in objects\<close> is the test that the list is not empty.
\<close>

definition list_objects_v2 :: "s3_client \<Rightarrow> storage \<Rightarrow> string \<Rightarrow> exn + (string \<times> nat) list"
  where
  "list_objects_v2 client st pre =
     (case list_objects_error client of
        Some e \<Rightarrow> Inl e
      | None \<Rightarrow>
          Inr (map (\<lambda>p. (fst p, last_modified (snd p)))
                 (filter (\<lambda>p. prefix pre (fst p)) (bucket st))))"

definition get_object :: "s3_client \<Rightarrow> storage \<Rightarrow> string \<Rightarrow> exn + body" where
  "get_object client st key =
     (case get_object_error client key of
        Some e \<Rightarrow> Inl e
      | None \<Rightarrow>
          (case map_of (bucket st) key of
             None \<Rightarrow> Inl (OtherException ''NoSuchKey'')
           | Some obj \<Rightarrow> Inr (obj_body obj)))"

text \<open>
  \<open>sorted(xs, key=f, reverse=True)\<close>: descending, and elements with equal keys keep
  the order they had. \<open>xs[:limit]\<close> for an integer limit.
\<close>

definition sorted_reverse :: "('a \<Rightarrow> nat) \<Rightarrow> 'a list \<Rightarrow> 'a list" where
  "sorted_reverse f xs = rev (sort_key f (rev xs))"

definition slice_to :: "int \<Rightarrow> 'a list \<Rightarrow> 'a list" where
  "slice_to limit xs =
     (if 0 \<le> limit then take (nat limit) xs else take (length xs - nat (- limit)) xs)"

text \<open>\<open>try: ... except Exception: ...\<close> around a body that changes the storage.\<close>

definition try_except_st ::
    "(exn + 'a) \<times> 's \<Rightarrow> (exn \<Rightarrow> 's \<Rightarrow> (exn + 'a) \<times> 's) \<Rightarrow> (exn + 'a) \<times> 's" where
  "try_except_st body handler =
     (case body of (Inl e, st) \<Rightarrow> handler e st | (Inr x, st) \<Rightarrow> (Inr x, st))"

definition interaction :: "string \<Rightarrow> string \<Rightarrow> string \<Rightarrow> pyval" where
  "interaction timestamp user_input answer =
     PDict [(''timestamp'', PStr timestamp), (''input'', PStr user_input),
            (''response'', PStr answer)]"

definition save_to_s3 :: "storage \<Rightarrow> string \<Rightarrow> string \<Rightarrow> (exn + bool) \<times> storage" where
  "save_to_s3 st user_input answer =
     (case s3 st of
        None \<Rightarrow> (Inr False, st)
      | Some client \<Rightarrow>
          if \<not> getenv_set (S3_BUCKET_NAME st) then (Inr False, st)
          else
            let timestamp = strftime_stamp (local_time st);
                filename = ''interactions/'' @ timestamp @ ''.json''
            in try_except_st
                 (case json_dumps (interaction timestamp user_input answer) of
                    Inl e \<Rightarrow> (Inl e, st)
                  | Inr b \<Rightarrow>
                      (case put_object client st filename b ''application/json'' of
                         (Inl e, st') \<Rightarrow> (Inl e, st')
                       | (Inr u, st') \<Rightarrow> (Inr True, st')))
                 (\<lambda>e st'. (Inr False, st')))"

text \<open>The loop of \<open>load_history\<close>: an object that cannot be read or decoded is skipped.\<close>

fun fetch_all :: "s3_client \<Rightarrow> storage \<Rightarrow> (string \<times> nat) list \<Rightarrow> pyval list" where
  "fetch_all client st [] = []"
| "fetch_all client st (obj # objs) =
     (case and_then (get_object client st (fst obj)) json_loads of
        Inr v \<Rightarrow> v # fetch_all client st objs
      | Inl e \<Rightarrow> fetch_all client st objs)"

definition load_history :: "storage \<Rightarrow> int \<Rightarrow> exn + pyval list" where
  "load_history st limit =
     (case s3 st of
        None \<Rightarrow> Inr []
      | Some client \<Rightarrow>
          if \<not> getenv_set (S3_BUCKET_NAME st) then Inr []
          else
            try_except
              (and_then (list_objects_v2 client st ''interactions/'') (\<lambda>objects.
               Inr (if objects \<noteq> []
                    then fetch_all client st (slice_to limit (sorted_reverse snd objects))
                    else [])))
              (\<lambda>e. Inr []))"

text \<open>A reachable client and an empty bucket, at 09:07:02 on both clocks' second 100.\<close>

definition good_client :: s3_client where
  "good_client =
     \<lparr>put_object_error = (\<lambda>key. None), list_objects_error = None,
      get_object_error = (\<lambda>key. None)\<rparr>"

definition demo_storage :: storage where
  "demo_storage =
     \<lparr>s3 = Some good_client,
      S3_BUCKET_NAME = Some ''assistant-log'',
      local_time = \<lparr>year = 2024, month = March, day = 5, hour = 9, minute = 7, second = 2\<rparr>,
      s3_time = 100,
      bucket = []\<rparr>"

(*DEFS-END*)

section \<open>Facts about the string functions\<close>

lemma char_of_nat_bits:
  "char_of (n::nat) = Char (odd n) (odd (n div 2)) (odd (n div 4)) (odd (n div 8))
     (odd (n div 16)) (odd (n div 32)) (odd (n div 64)) (odd (n div 128))"
  by (simp add: char_of_def bit_iff_odd_drop_bit drop_bit_eq_div)

lemmas str_defs = lower_def lower_char_def strip_def lstrip_def rstrip_def isspace_def replace_def py_or_def char_of_nat_bits Let_def
lemmas route_defs = process_command_def dispatch_def delegate_def reply_def

lemma py_in_sublist: "py_in sub s = sublist sub s"
  by (induction s) (simp_all add: sublist_Cons_right)

lemma py_in_iff: "py_in sub s \<longleftrightarrow> (\<exists>p q. s = p @ sub @ q)"
  by (simp add: py_in_sublist sublist_def)

lemma dropWhile_keeps:
  assumes "r \<noteq> []" "\<not> P (hd r)"
  shows "dropWhile P (p @ r) = dropWhile P p @ r"
proof -
  from assms have "dropWhile P r = r" by (cases r) simp_all
  then show ?thesis by (simp add: dropWhile_append)
qed

lemma lstrip_keeps:
  assumes "sub \<noteq> []" "\<not> isspace (hd sub)"
  shows "lstrip (p @ sub @ q) = lstrip p @ sub @ q"
  using dropWhile_keeps [of "sub @ q" isspace p] assms by (simp add: lstrip_def)

lemma rstrip_keeps:
  assumes "sub \<noteq> []" "\<not> isspace (last sub)"
  shows "rstrip (p @ sub @ q) = p @ sub @ rstrip q"
proof -
  have "dropWhile isspace (rev q @ (rev sub @ rev p)) = dropWhile isspace (rev q) @ (rev sub @ rev p)"
    using assms by (intro dropWhile_keeps) (simp_all add: hd_rev)
  then show ?thesis by (simp add: rstrip_def)
qed

lemma strip_keeps:
  assumes "sub \<noteq> []" "\<not> isspace (hd sub)" "\<not> isspace (last sub)"
  shows "strip (p @ sub @ q) = lstrip p @ sub @ rstrip q"
  using assms by (simp add: strip_def lstrip_keeps rstrip_keeps)

lemma py_in_strip:
  assumes "py_in sub s" "sub \<noteq> []" "\<not> isspace (hd sub)" "\<not> isspace (last sub)"
  shows "py_in sub (strip s)"
proof -
  from assms(1) obtain p q where "s = p @ sub @ q" by (auto simp: py_in_iff)
  with assms show ?thesis by (auto simp: py_in_iff strip_keeps)
qed

lemma py_in_rstrip:
  assumes "py_in sub s" "sub \<noteq> []" "\<not> isspace (last sub)"
  shows "py_in sub (rstrip s)"
proof -
  from assms(1) obtain p q where "s = p @ sub @ q" by (auto simp: py_in_iff)
  with assms show ?thesis by (auto simp: py_in_iff rstrip_keeps)
qed

lemma strip_all_space:
  assumes "list_all isspace s"
  shows "strip s = []"
proof -
  have h: "dropWhile isspace s = []" using assms by (simp add: list_all_iff)
  show ?thesis unfolding strip_def lstrip_def rstrip_def h by simp
qed

lemma length_lstrip: "length (lstrip s) \<le> length s"
  by (simp add: lstrip_def length_dropWhile_le)

lemma length_rstrip: "length (rstrip s) \<le> length s"
  using length_dropWhile_le [of isspace "rev s"] by (simp add: rstrip_def)

lemma length_strip: "length (strip s) \<le> length s"
  using length_rstrip [of "lstrip s"] length_lstrip [of s] by (simp add: strip_def)

lemma replace_from_absent:
  "\<not> py_in old s \<Longrightarrow> replace_from old new s = s"
  by (induction old new s rule: replace_from.induct) auto

lemma length_replace_from: "length (replace_from old [] s) \<le> length s"
proof (induction old "[] :: string" s rule: replace_from.induct)
  case (1 old)
  then show ?case by simp
next
  case (2 old c cs)
  then show ?case by (auto simp: le_SucI)
qed

lemma length_replace_from_less:
  "py_in old s \<Longrightarrow> old \<noteq> [] \<Longrightarrow> length (replace_from old [] s) < length s"
proof (induction old "[] :: string" s rule: replace_from.induct)
  case (1 old)
  then show ?case by simp
next
  case (2 old c cs)
  show ?case
  proof (cases "prefix old (c # cs)")
    case True
    have "length (replace_from old [] (drop (length old) (c # cs))) \<le> length (c # cs) - length old"
      using length_replace_from [of old "drop (length old) (c # cs)"] by simp
    moreover have "0 < length old" "0 < length (c # cs)" using 2(4) by simp_all
    ultimately have "length (replace_from old [] (drop (length old) (c # cs))) < length (c # cs)"
      by arith
    then show ?thesis using True 2(4) by simp
  next
    case False
    then show ?thesis using 2 by auto
  qed
qed

section \<open>Input validation\<close>

lemma lower_char_space: "isspace c \<Longrightarrow> lower_char c = c"
  by (auto simp: isspace_def lower_char_def Let_def)

lemma lower_all_space: "list_all isspace s \<Longrightarrow> lower s = s"
  by (simp add: lower_def list_all_iff lower_char_space map_idI)

lemma dispatch_Nil: "dispatch env [] = reply ''I didn't catch that. Please try again.''"
  by (simp add: dispatch_def)

lemma process_command_str:
  "s \<noteq> [] \<Longrightarrow> process_command env (PStr s) = dispatch env (strip (lower s))"
  by (simp add: process_command_def)

lemma process_command_blank:
  "s \<noteq> [] \<Longrightarrow> list_all isspace s \<Longrightarrow>
     process_command env (PStr s) = reply ''I didn't catch that. Please try again.''"
  by (simp add: process_command_str lower_all_space strip_all_space dispatch_Nil)

text \<open>
  C10. An argument that is not a string, or that is falsy (\<open>None\<close>, \<open>""\<close>, \<open>0\<close>, an empty
  list), gets the reply "Please provide a valid command": no adapter is called, and the
  reply differs from the one any non-empty whitespace-only string gets.
\<close>

theorem process_command_invalid:
  assumes "\<not> isinstance_str command \<or> \<not> truthy command"
  shows "process_command env command
           = \<lparr>invoked = [], response = Inr ''Please provide a valid command''\<rparr>
         \<and> (\<forall>env' ws. ws \<noteq> [] \<and> list_all isspace ws \<longrightarrow>
               response (process_command env command)
                 \<noteq> response (process_command env' (PStr ws)))"
proof -
  have a: "process_command env command = reply ''Please provide a valid command''"
    using assms by (auto simp: process_command_def)
  show ?thesis
    by (simp add: a process_command_blank) (simp add: reply_def)
qed

theorem process_command_invalid_witness:
  "\<not> isinstance_str PNone
   \<and> process_command demo_env PNone
       = \<lparr>invoked = [], response = Inr ''Please provide a valid command''\<rparr>
   \<and> response (process_command demo_env PNone)
       \<noteq> response (process_command demo_env (PStr '' ''))"
proof -
  have h: "\<not> isinstance_str PNone \<or> \<not> truthy PNone" by simp
  have w: "'' '' \<noteq> [] \<and> list_all isspace '' ''" by (simp add: isspace_def)
  note t = process_command_invalid [OF h, of demo_env]
  from t have a: "process_command demo_env PNone
       = \<lparr>invoked = [], response = Inr ''Please provide a valid command''\<rparr>"
    by (rule conjunct1)
  from t have "\<forall>env' ws. ws \<noteq> [] \<and> list_all isspace ws \<longrightarrow>
               response (process_command demo_env PNone)
                 \<noteq> response (process_command env' (PStr ws))"
    by (rule conjunct2)
  with w have b: "response (process_command demo_env PNone)
       \<noteq> response (process_command demo_env (PStr '' ''))"
    by blast
  have c: "\<not> isinstance_str PNone" by simp
  from a b c show ?thesis by (intro conjI)
qed

text \<open>
  C2, as the code has it. A string of whitespace only calls no adapter. When it is not
  empty the reply is "I didn't catch that. Please try again."; the empty string is
  stopped by the first guard and gets "Please provide a valid command".
\<close>

theorem blank_command:
  assumes "list_all isspace s"
  shows "process_command env (PStr s)
           = \<lparr>invoked = [],
              response = Inr (if s = [] then ''Please provide a valid command''
                              else ''I didn't catch that. Please try again.'')\<rparr>"
proof (cases "s = []")
  case True
  then show ?thesis by (simp add: process_command_def reply_def)
next
  case False
  then show ?thesis using assms by (simp add: process_command_blank reply_def)
qed

theorem blank_command_witness:
  "list_all isspace [CHR '' '', CHR 0x09, CHR 0xA0]
   \<and> process_command demo_env (PStr [CHR '' '', CHR 0x09, CHR 0xA0])
       = \<lparr>invoked = [], response = Inr ''I didn't catch that. Please try again.''\<rparr>"
proof -
  have h: "list_all isspace [CHR '' '', CHR 0x09, CHR 0xA0]" by (simp add: isspace_def)
  from blank_command [OF h, of demo_env] h show ?thesis by simp
qed

text \<open>The empty string and a single blank do not get the same reply.\<close>

theorem blank_command_counterexample:
  "response (process_command demo_env (PStr []))
     \<noteq> response (process_command demo_env (PStr '' ''))"
  by (simp add: str_defs route_defs)

section \<open>Routing\<close>

text \<open>
  C3, as the code has it. The city is cut out of the normalised command, which is in lower
  case: "weather in Paris" calls the weather adapter with "paris", and "weather" alone
  calls it with the default "New York".
\<close>

theorem weather_city_examples:
  "process_command env (PStr ''weather in Paris'')
     = \<lparr>invoked = [Get_weather ''paris''], response = get_weather env ''paris''\<rparr>
   \<and> process_command env (PStr ''weather'')
     = \<lparr>invoked = [Get_weather ''New York''], response = get_weather env ''New York''\<rparr>"
  by (simp add: str_defs route_defs)

lemma get_weather_demo: "get_weather demo_env city = Inr ''Weather API not configured''"
  by (simp add: get_weather_def demo_env_def)

theorem weather_city_examples_witness:
  "process_command demo_env (PStr ''weather in Paris'')
     = \<lparr>invoked = [Get_weather ''paris''], response = Inr ''Weather API not configured''\<rparr>
   \<and> process_command demo_env (PStr ''weather'')
     = \<lparr>invoked = [Get_weather ''New York''],
        response = Inr ''Weather API not configured''\<rparr>"
  using weather_city_examples [of demo_env] by (simp only: get_weather_demo)

text \<open>The argument for "weather in Paris" is not "Paris".\<close>

theorem weather_city_counterexample:
  "invoked (process_command demo_env (PStr ''weather in Paris'')) \<noteq> [Get_weather ''Paris'']"
  by (simp add: str_defs route_defs)

lemma dispatch_greeting:
  assumes "py_in ''hello'' command \<or> py_in ''hi'' command \<or> py_in ''hey'' command"
  shows "dispatch env command = reply ''Hello! How can I help?''"
proof -
  from assms have "command \<noteq> []" by auto
  with assms show ?thesis by (simp add: dispatch_def)
qed

text \<open>
  C8. A string whose lower-case form has "hi" or "hey" anywhere in it, inside a word or
  not, gets the greeting and calls no adapter, whatever else it contains.
\<close>

theorem greeting_substring:
  assumes "py_in ''hi'' (lower s) \<or> py_in ''hey'' (lower s)"
  shows "process_command env (PStr s)
           = \<lparr>invoked = [], response = Inr ''Hello! How can I help?''\<rparr>"
proof -
  from assms have "lower s \<noteq> []" by auto
  then have ne: "s \<noteq> []" by (auto simp: lower_def)
  have "py_in ''hi'' (strip (lower s)) \<or> py_in ''hey'' (strip (lower s))"
    using assms by (auto intro!: py_in_strip simp: isspace_def)
  then have "dispatch env (strip (lower s)) = reply ''Hello! How can I help?''"
    by (intro dispatch_greeting) simp
  with ne show ?thesis by (simp add: process_command_str reply_def)
qed

theorem greeting_substring_witness:
  "(py_in ''hi'' (lower ''Which date has the best weather'')
      \<or> py_in ''hey'' (lower ''Which date has the best weather''))
   \<and> process_command demo_env (PStr ''Which date has the best weather'')
       = \<lparr>invoked = [], response = Inr ''Hello! How can I help?''\<rparr>"
proof -
  have h: "py_in ''hi'' (lower ''Which date has the best weather'')
      \<or> py_in ''hey'' (lower ''Which date has the best weather'')"
    by (simp add: str_defs)
  from greeting_substring [OF h, of demo_env] h show ?thesis by blast
qed

lemma lower_append: "lower (a @ b) = lower a @ lower b"
  by (simp add: lower_def)

lemma length_lower: "length (lower s) = length s"
  by (simp add: lower_def)

lemma dispatch_weather:
  assumes "command \<noteq> []"
    and "\<not> py_in ''hello'' command" "\<not> py_in ''hi'' command" "\<not> py_in ''hey'' command"
    and "\<not> py_in ''time'' command" "\<not> py_in ''date'' command"
    and "py_in ''weather'' command"
  shows "dispatch env command
           = (let city = py_or (strip (replace ''in'' [] (replace ''weather'' [] command)))
                           ''New York''
              in \<lparr>invoked = [Get_weather city], response = get_weather env city\<rparr>)"
  using assms by (simp add: dispatch_def delegate_def Let_def)

lemma invoked_dispatch_cases:
  "invoked (dispatch env command) = []
   \<or> (py_in ''weather'' command \<and>
        invoked (dispatch env command)
          = [Get_weather (py_or (strip (replace ''in'' [] (replace ''weather'' [] command)))
               ''New York'')])
   \<or> (\<not> py_in ''weather'' command)"
proof (cases "command = [] \<or> py_in ''hello'' command \<or> py_in ''hi'' command
               \<or> py_in ''hey'' command \<or> py_in ''time'' command \<or> py_in ''date'' command")
  case True
  then have "invoked (dispatch env command) = []"
    by (auto simp: dispatch_def reply_def)
  then show ?thesis by simp
next
  case False
  show ?thesis
  proof (cases "py_in ''weather'' command")
    case True
    with False show ?thesis by (simp add: dispatch_weather Let_def)
  next
    case False
    then show ?thesis by simp
  qed
qed

lemma weather_in_city:
  assumes "py_in ''in'' (lower city)"
    and "Get_weather d \<in> set (invoked (process_command env (PStr (''weather in '' @ city))))"
  shows "d = ''New York'' \<or> length d < length city"
proof -
  from assms(1) obtain p q where L: "lower city = p @ ''in'' @ q"
    by (auto simp: py_in_iff)
  define R where "R = p @ ''in'' @ rstrip q"
  have lenR: "length R \<le> length city"
    using length_rstrip [of q] length_lower [of city] by (simp add: R_def L)
  have inR: "py_in ''in'' R"
    by (auto simp: py_in_iff R_def)
  have lw: "lower ''weather in '' = ''weather in ''"
    by (simp add: str_defs)
  have low: "lower (''weather in '' @ city) = (''weather in '' @ p) @ ''in'' @ q"
    unfolding lower_append lw L by simp
  have N: "strip (lower (''weather in '' @ city)) = ''weather in '' @ R"
  proof -
    have "strip ((''weather in '' @ p) @ ''in'' @ q)
            = lstrip (''weather in '' @ p) @ ''in'' @ rstrip q"
      by (rule strip_keeps) (simp_all add: isspace_def)
    moreover have "lstrip (''weather in '' @ p) = ''weather in '' @ p"
      by (simp add: lstrip_def isspace_def)
    ultimately show ?thesis unfolding low R_def by simp
  qed
  have ne: "''weather in '' @ city \<noteq> []" by simp
  have pc: "process_command env (PStr (''weather in '' @ city))
              = dispatch env (''weather in '' @ R)"
    unfolding process_command_str [OF ne] N ..
  have w: "py_in ''weather'' (''weather in '' @ R)" by simp
  define R1 where "R1 = replace_from ''weather'' [] R"
  define R2 where "R2 = replace_from ''in'' [] R1"
  have r1: "replace ''weather'' [] (''weather in '' @ R) = '' in '' @ R1"
    by (simp add: replace_def R1_def)
  have r2: "replace ''in'' [] ('' in '' @ R1) = ''  '' @ R2"
    by (simp add: replace_def R2_def)
  have s2: "strip (''  '' @ R2) = strip R2"
    by (simp add: strip_def lstrip_def isspace_def)
  have lenR2: "length R2 < length R"
  proof (cases "py_in ''weather'' R")
    case True
    then have "length R1 < length R"
      unfolding R1_def by (intro length_replace_from_less) simp_all
    moreover have "length R2 \<le> length R1"
      unfolding R2_def by (rule length_replace_from)
    ultimately show ?thesis by simp
  next
    case False
    then have "R1 = R" unfolding R1_def by (rule replace_from_absent)
    with inR have "py_in ''in'' R1" by simp
    then have "length (replace_from ''in'' [] R1) < length R1"
      by (rule length_replace_from_less) simp
    then show ?thesis unfolding R2_def \<open>R1 = R\<close> .
  qed
  from assms(2) have m: "Get_weather d \<in> set (invoked (dispatch env (''weather in '' @ R)))"
    unfolding pc .
  note c = invoked_dispatch_cases [of env "''weather in '' @ R", unfolded r1 r2 s2]
  from c w m have "d = py_or (strip R2) ''New York''"
    by auto
  then show ?thesis
    using length_strip [of R2] lenR2 lenR by (auto simp: py_or_def)
qed

text \<open>
  C9. The city is what is left of the command when every occurrence of "weather" and then
  of "in" has been cut out, inside words too: "weather in berlin" calls the weather
  adapter with "berl". For every city whose lower-case form contains "in", the command
  "weather in <city>" never calls the adapter with that city, nor with its lower-case
  form.
\<close>

theorem weather_city_mangled:
  "process_command env (PStr ''weather in berlin'')
     = \<lparr>invoked = [Get_weather ''berl''], response = get_weather env ''berl''\<rparr>
   \<and> (\<forall>city d. py_in ''in'' (lower city)
         \<and> Get_weather d \<in> set (invoked (process_command env (PStr (''weather in '' @ city))))
         \<longrightarrow> d \<noteq> city \<and> d \<noteq> lower city)"
proof -
  have ex: "process_command env (PStr ''weather in berlin'')
     = \<lparr>invoked = [Get_weather ''berl''], response = get_weather env ''berl''\<rparr>"
    by (simp add: str_defs route_defs)
  have gen: "d \<noteq> city \<and> d \<noteq> lower city"
    if a: "py_in ''in'' (lower city)"
      and b: "Get_weather d \<in> set (invoked (process_command env (PStr (''weather in '' @ city))))"
    for city d
  proof -
    from weather_in_city [OF a b] have c: "d = ''New York'' \<or> length d < length city" .
    have n1: "\<not> py_in ''in'' (lower ''New York'')" by (simp add: str_defs)
    have n2: "\<not> py_in ''in'' ''New York''" by simp
    from a n1 have "city \<noteq> ''New York''" by auto
    moreover from a n2 have "lower city \<noteq> ''New York''" by auto
    ultimately show ?thesis using c length_lower [of city] by auto
  qed
  from ex gen show ?thesis by blast
qed

theorem weather_city_mangled_witness:
  "py_in ''in'' (lower ''berlin'')
   \<and> invoked (process_command demo_env (PStr (''weather in '' @ ''berlin''))) = [Get_weather ''berl'']
   \<and> ''berl'' \<noteq> ''berlin''"
proof -
  have a: "py_in ''in'' (lower ''berlin'')" by (simp add: str_defs)
  from weather_city_mangled [of demo_env]
  have "invoked (process_command demo_env (PStr (''weather in '' @ ''berlin''))) = [Get_weather ''berl'']"
    by simp
  with a show ?thesis by simp
qed

lemma first_match_least:
  "i < length rules \<Longrightarrow> fst (rules ! i) c \<Longrightarrow> \<forall>k<i. \<not> fst (rules ! k) c \<Longrightarrow>
     first_match rules env c = Some (snd (rules ! i) env c)"
proof (induction rules arbitrary: i)
  case Nil
  then show ?case by simp
next
  case (Cons r rules)
  show ?case
  proof (cases i)
    case 0
    with Cons.prems show ?thesis by simp
  next
    case (Suc j)
    from Cons.prems(3) Suc have "\<not> fst r c" by auto
    moreover have "first_match rules env c = Some (snd (rules ! j) env c)"
    proof (rule Cons.IH)
      show "j < length rules" using Cons.prems(1) Suc by simp
      show "fst (rules ! j) c" using Cons.prems(2) Suc by simp
      show "\<forall>k<j. \<not> fst (rules ! k) c"
      proof (intro allI impI)
        fix k assume "k < j"
        then have "Suc k < i" using Suc by simp
        with Cons.prems(3) have "\<not> fst ((r # rules) ! Suc k) c" by blast
        then show "\<not> fst (rules ! k) c" by simp
      qed
    qed
    ultimately show ?thesis using Suc by simp
  qed
qed

lemma dispatch_refines_table:
  assumes "c \<noteq> []"
  shows "first_match rule_table env c = Some (dispatch env c)"
  using assms
  by (auto simp add: rule_table_def dispatch_def strip_tokens_def Let_def)

lemma dispatch_never_music:
  assumes "py_in ''weather'' c"
  shows "Play_spotify x \<notin> set (invoked (dispatch env c))"
  using invoked_dispatch_cases [of env c] assms by auto

text \<open>
  C1, as the code has it. On every non-empty normalised command the router does what the
  first matching rule of the table does: the rule with the least index among those whose
  condition holds. A command with "weather", "play" and "music" in it that no earlier rule
  (greeting, time, date) matches goes to the weather adapter; a command with "weather" in
  it never goes to the music adapter; "weather music play" calls the weather adapter with
  "music play".
\<close>

theorem first_match_wins:
  "(\<forall>c. c \<noteq> [] \<longrightarrow> first_match rule_table env c = Some (dispatch env c))
   \<and> (\<forall>c i. c \<noteq> [] \<and> i < length rule_table \<and> fst (rule_table ! i) c
          \<and> (\<forall>k<i. \<not> fst (rule_table ! k) c)
        \<longrightarrow> dispatch env c = snd (rule_table ! i) env c)
   \<and> (\<forall>c. py_in ''weather'' c \<and> py_in ''play'' c \<and> py_in ''music'' c
          \<and> \<not> py_in ''hello'' c \<and> \<not> py_in ''hi'' c \<and> \<not> py_in ''hey'' c
          \<and> \<not> py_in ''time'' c \<and> \<not> py_in ''date'' c
        \<longrightarrow> (\<exists>city. dispatch env c
                      = \<lparr>invoked = [Get_weather city], response = get_weather env city\<rparr>))
   \<and> (\<forall>c x. py_in ''weather'' c \<longrightarrow> Play_spotify x \<notin> set (invoked (dispatch env c)))
   \<and> process_command env (PStr ''weather music play'')
       = \<lparr>invoked = [Get_weather ''music play''], response = get_weather env ''music play''\<rparr>"
proof (intro conjI allI impI)
  fix c :: string
  assume "c \<noteq> []"
  then show "first_match rule_table env c = Some (dispatch env c)"
    by (rule dispatch_refines_table)
next
  fix c :: string and i
  assume a: "c \<noteq> [] \<and> i < length rule_table \<and> fst (rule_table ! i) c
          \<and> (\<forall>k<i. \<not> fst (rule_table ! k) c)"
  then have "first_match rule_table env c = Some (snd (rule_table ! i) env c)"
    by (intro first_match_least) simp_all
  moreover from a have "first_match rule_table env c = Some (dispatch env c)"
    by (intro dispatch_refines_table) simp
  ultimately show "dispatch env c = snd (rule_table ! i) env c" by simp
next
  fix c :: string
  assume a: "py_in ''weather'' c \<and> py_in ''play'' c \<and> py_in ''music'' c
          \<and> \<not> py_in ''hello'' c \<and> \<not> py_in ''hi'' c \<and> \<not> py_in ''hey'' c
          \<and> \<not> py_in ''time'' c \<and> \<not> py_in ''date'' c"
  then have "c \<noteq> []" by auto
  with a show "\<exists>city. dispatch env c
                      = \<lparr>invoked = [Get_weather city], response = get_weather env city\<rparr>"
    by (simp add: dispatch_weather Let_def)
next
  fix c :: string and x
  assume "py_in ''weather'' c"
  then show "Play_spotify x \<notin> set (invoked (dispatch env c))"
    by (rule dispatch_never_music)
next
  show "process_command env (PStr ''weather music play'')
       = \<lparr>invoked = [Get_weather ''music play''], response = get_weather env ''music play''\<rparr>"
    by (simp add: str_defs route_defs)
qed

theorem first_match_wins_witness:
  "fst (rule_table ! 3) ''weather music play''
   \<and> fst (rule_table ! 5) ''weather music play''
   \<and> first_match rule_table demo_env ''weather music play''
       = Some (dispatch demo_env ''weather music play'')
   \<and> dispatch demo_env ''weather music play''
       = \<lparr>invoked = [Get_weather ''music play''],
          response = Inr ''Weather API not configured''\<rparr>
   \<and> process_command demo_env (PStr ''weather music play'')
       = \<lparr>invoked = [Get_weather ''music play''],
          response = Inr ''Weather API not configured''\<rparr>"
proof -
  note t = first_match_wins [of demo_env]
  have a: "fst (rule_table ! 3) ''weather music play''"
    by (simp add: rule_table_def)
  have b: "fst (rule_table ! 5) ''weather music play''"
    by (simp add: rule_table_def)
  have ne: "''weather music play'' \<noteq> []" by simp
  from t ne have c: "first_match rule_table demo_env ''weather music play''
       = Some (dispatch demo_env ''weather music play'')" by blast
  have d: "dispatch demo_env ''weather music play''
       = \<lparr>invoked = [Get_weather ''music play''],
          response = Inr ''Weather API not configured''\<rparr>"
    by (simp add: str_defs route_defs get_weather_demo)
  from t have e: "process_command demo_env (PStr ''weather music play'')
       = \<lparr>invoked = [Get_weather ''music play''],
          response = get_weather demo_env ''music play''\<rparr>" by blast
  from a b c d e show ?thesis by (simp only: get_weather_demo simp_thms)
qed

text \<open>
  A command with "weather", "play" and "music" in it that the greeting rule takes: no
  adapter is called.
\<close>

theorem first_match_wins_counterexample:
  "py_in ''weather'' ''this weather music play''
   \<and> py_in ''play'' ''this weather music play''
   \<and> py_in ''music'' ''this weather music play''
   \<and> process_command demo_env (PStr ''this weather music play'')
       = \<lparr>invoked = [], response = Inr ''Hello! How can I help?''\<rparr>"
  by (simp add: str_defs route_defs)

section \<open>The adapters never raise\<close>

lemma count_join:
  "\<forall>x\<in>set xs. c \<notin> set x \<Longrightarrow>
     count_list (join sep xs) c = (length xs - 1) * count_list sep c"
  by (induction sep xs rule: join.induct) simp_all

lemma try_except_returns:
  assumes "\<And>e. \<exists>r. handler e = Inr r"
  shows "\<exists>r. try_except body handler = Inr r"
  using assms by (cases body) (simp_all add: try_except_def)

lemma get_weather_returns: "\<exists>r. get_weather env city = Inr r"
proof (cases "getenv_set (WEATHER_API_KEY env)")
  case False
  then show ?thesis by (simp add: get_weather_def)
next
  case True
  have h: "\<exists>r. (case e of RequestException m \<Rightarrow> Inr (''Error fetching weather: '' @ str_exn e)
              | _ \<Rightarrow> Inr (''Error processing weather data: '' @ str_exn e)) = Inr r" for e
    by (cases e) simp_all
  have "\<exists>r. try_except body
              (\<lambda>e. case e of
                     RequestException m \<Rightarrow> Inr (''Error fetching weather: '' @ str_exn e)
                   | _ \<Rightarrow> Inr (''Error processing weather data: '' @ str_exn e)) = Inr r"
    for body
    by (rule try_except_returns) (rule h)
  then show ?thesis
    using True unfolding get_weather_def Let_def by simp
qed

lemma search_wikipedia_returns: "\<exists>r. search_wikipedia env query = Inr r"
proof -
  have "\<exists>r. (case e of
               DisambiguationError m options \<Rightarrow>
                 Inr (''Multiple matches. Be more specific. Options: ''
                      @ join '', '' (take 3 options) @ ''...'')
             | PageError m \<Rightarrow> Inr ''No information found. Try different terms.''
             | _ \<Rightarrow> Inr (''Wikipedia error: '' @ str_exn e)) = Inr r" for e
    by (cases e) simp_all
  then show ?thesis
    unfolding search_wikipedia_def by (rule try_except_returns)
qed

lemma play_spotify_returns: "\<exists>r. play_spotify env song_name = Inr r"
proof (cases "sp env")
  case None
  then show ?thesis by (simp add: play_spotify_def)
next
  case (Some client)
  then show ?thesis
    by (simp add: play_spotify_def try_except_returns)
qed

lemma search_google_returns: "\<exists>r. search_google env query = Inr r"
  unfolding search_google_def by (rule try_except_returns) simp

lemma dispatch_returns: "\<exists>r. response (dispatch env command) = Inr r"
  using get_weather_returns [of env] search_wikipedia_returns [of env]
    play_spotify_returns [of env] search_google_returns [of env]
  by (simp add: dispatch_def reply_def delegate_def Let_def)

text \<open>
  C4. For every string the router returns a string: no exception leaves
  \<open>process_command\<close>, whatever the library calls return or raise. The same holds of
  each adapter on its own, since each turns every exception of its body into a string.
\<close>

theorem process_command_returns:
  "(\<exists>r. response (process_command env (PStr s)) = Inr r)
   \<and> (\<exists>r. get_weather env city = Inr r)
   \<and> (\<exists>r. search_wikipedia env query = Inr r)
   \<and> (\<exists>r. play_spotify env song_name = Inr r)
   \<and> (\<exists>r. search_google env query = Inr r)"
proof -
  have "\<exists>r. response (process_command env (PStr s)) = Inr r"
  proof (cases "s = []")
    case True
    then show ?thesis by (simp add: process_command_def reply_def)
  next
    case False
    then show ?thesis by (simp add: process_command_str dispatch_returns)
  qed
  then show ?thesis
    using get_weather_returns search_wikipedia_returns play_spotify_returns
      search_google_returns
    by blast
qed

theorem process_command_returns_witness:
  "(\<exists>r. response (process_command failing_env (PStr ''weather in Oslo'')) = Inr r)
   \<and> process_command failing_env (PStr ''weather in Oslo'')
       = \<lparr>invoked = [Get_weather ''oslo''],
          response = Inr (''Error processing weather data: '' @ quoted ''list''
                          @ '' object has no attribute '' @ quoted ''get'')\<rparr>
   \<and> process_command failing_env (PStr ''wiki mercury'')
       = \<lparr>invoked = [Search_wikipedia ''mercury''],
          response = Inr ''Wikipedia error: connection reset''\<rparr>
   \<and> process_command failing_env (PStr ''play song imagine'')
       = \<lparr>invoked = [Play_spotify ''imagine''],
          response = Inr ''Spotify error: token expired''\<rparr>
   \<and> process_command failing_env (PStr ''search google cats'')
       = \<lparr>invoked = [Search_google ''cats''],
          response = Inr ''Search error: no browser''\<rparr>"
proof -
  from process_command_returns [of failing_env "''weather in Oslo''"]
  have a: "\<exists>r. response (process_command failing_env (PStr ''weather in Oslo'')) = Inr r"
    by (rule conjunct1)
  have w: "get_weather failing_env ''oslo''
             = Inr (''Error processing weather data: '' @ quoted ''list''
                    @ '' object has no attribute '' @ quoted ''get'')"
    by (simp add: get_weather_def failing_env_def Let_def try_except_def and_then_def
        py_get_def)
  have b: "process_command failing_env (PStr ''weather in Oslo'')
       = \<lparr>invoked = [Get_weather ''oslo''], response = get_weather failing_env ''oslo''\<rparr>"
    by (simp add: str_defs route_defs)
  have c: "process_command failing_env (PStr ''wiki mercury'')
       = \<lparr>invoked = [Search_wikipedia ''mercury''],
          response = Inr ''Wikipedia error: connection reset''\<rparr>"
    by (simp add: str_defs route_defs search_wikipedia_def failing_env_def try_except_def)
  have d: "process_command failing_env (PStr ''play song imagine'')
       = \<lparr>invoked = [Play_spotify ''imagine''],
          response = Inr ''Spotify error: token expired''\<rparr>"
    by (simp add: str_defs route_defs play_spotify_def failing_env_def try_except_def
        and_then_def)
  have e: "process_command failing_env (PStr ''search google cats'')
       = \<lparr>invoked = [Search_google ''cats''],
          response = Inr ''Search error: no browser''\<rparr>"
    by (simp add: str_defs route_defs search_google_def failing_env_def try_except_def
        and_then_def)
  from a b c d e show ?thesis unfolding w by (intro conjI)
qed

text \<open>
  C5. When the encyclopedia lookup raises a disambiguation error, the answer lists the
  first three of the reported options at most, joined by ", ", after a fixed heading and
  before "...". When no option has a comma in it, the answer has two commas at most,
  that is three fields.
\<close>

theorem disambiguation_options:
  assumes "wikipedia_summary env query = Inl (DisambiguationError m options)"
  shows "(\<exists>shown. prefix shown options \<and> length shown \<le> 3
            \<and> search_wikipedia env query
                = Inr (''Multiple matches. Be more specific. Options: ''
                       @ join '', '' shown @ ''...''))
         \<and> ((\<forall>opt\<in>set options. CHR '','' \<notin> set opt)
              \<longrightarrow> (\<exists>r. search_wikipedia env query = Inr r \<and> count_list r CHR '','' \<le> 2))"
proof -
  have r: "search_wikipedia env query
             = Inr (''Multiple matches. Be more specific. Options: ''
                    @ join '', '' (take 3 options) @ ''...'')"
    using assms by (simp add: search_wikipedia_def try_except_def)
  have p: "prefix (take 3 options) options"
    by (rule take_is_prefix)
  have l: "length (take 3 options) \<le> 3" by simp
  have c: "count_list (''Multiple matches. Be more specific. Options: ''
                    @ join '', '' (take 3 options) @ ''...'') CHR '','' \<le> 2"
    if "\<forall>opt\<in>set options. CHR '','' \<notin> set opt"
  proof -
    from that have "\<forall>x\<in>set (take 3 options). CHR '','' \<notin> set x"
      by (meson in_set_takeD)
    then have "count_list (join '', '' (take 3 options)) CHR '',''
                 = (length (take 3 options) - 1) * count_list '', '' CHR '',''"
      by (rule count_join)
    then show ?thesis by simp
  qed
  from r p l c show ?thesis by (metis (no_types, lifting))
qed

theorem disambiguation_options_witness:
  "wikipedia_summary demo_env ''mercury''
     = Inl (DisambiguationError ''mercury may refer to''
         [''Mercury (planet)'', ''Mercury (element)'', ''Mercury (mythology)'',
          ''Mercury Records''])
   \<and> search_wikipedia demo_env ''mercury''
       = Inr ''Multiple matches. Be more specific. Options: Mercury (planet), Mercury (element), Mercury (mythology)...''
   \<and> (\<exists>r. search_wikipedia demo_env ''mercury'' = Inr r \<and> count_list r CHR '','' \<le> 2)"
proof -
  have h: "wikipedia_summary demo_env ''mercury''
     = Inl (DisambiguationError ''mercury may refer to''
         [''Mercury (planet)'', ''Mercury (element)'', ''Mercury (mythology)'',
          ''Mercury Records''])"
    by (simp add: demo_env_def)
  have n: "\<forall>opt\<in>set [''Mercury (planet)'', ''Mercury (element)'', ''Mercury (mythology)'',
          ''Mercury Records'']. CHR '','' \<notin> set opt"
    by simp
  have v: "search_wikipedia demo_env ''mercury''
       = Inr ''Multiple matches. Be more specific. Options: Mercury (planet), Mercury (element), Mercury (mythology)...''"
    by (simp add: search_wikipedia_def try_except_def demo_env_def)
  from disambiguation_options [OF h] n
  have "\<exists>r. search_wikipedia demo_env ''mercury'' = Inr r \<and> count_list r CHR '','' \<le> 2"
    by blast
  with h v show ?thesis by (intro conjI)
qed

(*LEMMAS-END*)

end
